theory Spec2Isabelle
  imports Main "HOL-Library.Sublist" "HOL-Library.Char_ord" "HOL-Library.List_Lexorder"
    "HOL-Library.Multiset"
begin

section \<open>Levels, errors and time stamps\<close>

text \<open>
  Go's \<open>int\<close> and \<open>int64\<close> are modelled as \<open>int\<close>: every quantity of the package is
  a level, a file size, a line count or a count of seconds, far below \<open>2^63\<close>, and no
  wrap-around arises on such values. Go strings are byte sequences: \<open>string\<close>.
\<close>

definition DEBUG :: int where "DEBUG = 0"
definition INFO :: int where "INFO = 1"
definition WARN :: int where "WARN = 2"
definition ERROR :: int where "ERROR = 3"
definition FATAL :: int where "FATAL = 4"

text \<open>
  Errors are values. The operating system's errors carry the path they arose on;
  \<open>ErrorString\<close> is an error made by \<open>errors.New\<close> or \<open>fmt.Errorf\<close> from its text.
\<close>

datatype error =
    ErrInvalid
  | ErrClosed
  | ErrNotExist string
  | ErrPermission string
  | ErrNoSpace
  | ErrorString string

fun error_text :: "error \<Rightarrow> string" where
  "error_text ErrInvalid = ''invalid argument''"
| "error_text ErrClosed = ''file already closed''"
| "error_text (ErrNotExist p) = p @ '': no such file or directory''"
| "error_text (ErrPermission p) = p @ '': permission denied''"
| "error_text ErrNoSpace = ''no space left on device''"
| "error_text (ErrorString s) = s"

text \<open>
  A \<open>time.Time\<close> is modelled by what its accessors return: the civil date and clock in
  the local zone, the nanosecond within the second, and the Unix time in seconds.
\<close>

record time =
  t_year :: nat
  t_month :: nat
  t_day :: nat
  t_hour :: nat
  t_minute :: nat
  t_second :: nat
  t_nanosecond :: nat
  t_unix :: int

definition digit :: "nat \<Rightarrow> char" where
  "digit d = ''0123456789'' ! d"

text \<open>\<open>strconv.Itoa\<close> on a number that is not negative: its decimal digits, unpadded.\<close>

fun itoa :: "nat \<Rightarrow> string" where
  "itoa n = (if n < 10 then [digit n] else itoa (n div 10) @ [digit (n mod 10)])"

declare itoa.simps [simp del]


text \<open>A field of a \<open>time.Format\<close> layout: the number padded with zeros to a width.\<close>

definition zpad :: "nat \<Rightarrow> nat \<Rightarrow> string" where
  "zpad width n = replicate (width - length (itoa n)) (CHR ''0'') @ itoa n"

text \<open>\<open>when.Format("2006-01-02 15:04:05")\<close>.\<close>

definition Format_header :: "time \<Rightarrow> string" where
  "Format_header t =
     zpad 4 (t_year t) @ ''-'' @ zpad 2 (t_month t) @ ''-'' @ zpad 2 (t_day t) @ '' '' @
     zpad 2 (t_hour t) @ '':'' @ zpad 2 (t_minute t) @ '':'' @ zpad 2 (t_second t)"

text \<open>\<open>t.Format(LOG_PATTERN)\<close>, with \<open>LOG_PATTERN = "2006-01-02-15-04-05"\<close>.\<close>

definition Format_LOG_PATTERN :: "time \<Rightarrow> string" where
  "Format_LOG_PATTERN t =
     zpad 4 (t_year t) @ ''-'' @ zpad 2 (t_month t) @ ''-'' @ zpad 2 (t_day t) @ ''-'' @
     zpad 2 (t_hour t) @ ''-'' @ zpad 2 (t_minute t) @ ''-'' @ zpad 2 (t_second t)"

text \<open>
  \<open>formatTimeHeader\<close> returns the header, the day of the month and a nil error.
\<close>

definition formatTimeHeader :: "time \<Rightarrow> string \<times> int \<times> error option" where
  "formatTimeHeader when =
     (let str = Format_header when;
          d = int (t_day when);
          us = t_nanosecond when div 1000
      in (''['' @ str @ ''.'' @ itoa us @ '']'', d, None))"

definition transLogLevel :: "string \<Rightarrow> int" where
  "transLogLevel level =
     (if level = ''DEBUG'' then DEBUG
      else if level = ''INFO'' then INFO
      else if level = ''WARN'' then WARN
      else if level = ''ERROR'' then ERROR
      else if level = ''FATAL'' then FATAL
      else DEBUG)"

section \<open>The environment: files, streams, clock\<close>

text \<open>
  The file system binds paths to inodes and inodes to contents, so that an open handle
  keeps its file across a rename. \<open>w_denied\<close> holds the paths the system refuses to open
  for writing, create or rename to; \<open>w_full\<close> says that the device takes no more data.
  \<open>w_removed\<close> lists the paths \<open>os.Remove\<close> has been called on, oldest first, and
  \<open>w_spawned\<close> the background tasks started by a \<open>go\<close> statement, which the model does
  not run. \<open>w_now\<close> is \<open>time.Now()\<close>, \<open>w_gid\<close> what \<open>getGID\<close> reads off the stack,
  \<open>w_caller\<close> what \<open>runtime.Caller\<close> returns at a depth.
\<close>

record world =
  w_names :: "string \<rightharpoonup> nat"
  w_inodes :: "nat \<Rightarrow> string"
  w_fresh :: nat
  w_denied :: "string set"
  w_full :: bool
  w_removed :: "string list"
  w_stdout :: "string list"
  w_stderr :: "string list"
  w_spawned :: "(string \<times> string) list"
  w_now :: time
  w_gid :: string
  w_caller :: "int \<Rightarrow> (string \<times> int) option"

text \<open>An \<open>*os.File\<close>: the inode it is open on, and whether it has been closed.\<close>

record handle =
  h_ino :: nat
  h_closed :: bool

definition getGID :: "world \<Rightarrow> string" where
  "getGID wd = w_gid wd"

text \<open>\<open>os.OpenFile(name, O_WRONLY|O_APPEND|O_CREATE, perm)\<close>.\<close>

definition os_OpenFile :: "string \<Rightarrow> world \<Rightarrow> error + (handle \<times> world)" where
  "os_OpenFile name wd =
     (if name \<in> w_denied wd then Inl (ErrPermission name)
      else case w_names wd name of
             Some i \<Rightarrow> Inr (\<lparr>h_ino = i, h_closed = False\<rparr>, wd)
           | None \<Rightarrow>
               Inr (\<lparr>h_ino = w_fresh wd, h_closed = False\<rparr>,
                    wd\<lparr>w_names := (w_names wd)(name \<mapsto> w_fresh wd),
                       w_inodes := (w_inodes wd)(w_fresh wd := []),
                       w_fresh := Suc (w_fresh wd)\<rparr>))"

text \<open>\<open>os.Open(name)\<close>: the inode the reader is open on.\<close>

definition os_Open :: "string \<Rightarrow> world \<Rightarrow> error + nat" where
  "os_Open name wd =
     (case w_names wd name of
        None \<Rightarrow> Inl (ErrNotExist name)
      | Some i \<Rightarrow> Inr i)"

text \<open>\<open>os.Create(name)\<close>: the file is created, or truncated when it exists.\<close>

definition os_Create :: "string \<Rightarrow> world \<Rightarrow> error + (handle \<times> world)" where
  "os_Create name wd =
     (if name \<in> w_denied wd then Inl (ErrPermission name)
      else case w_names wd name of
             Some i \<Rightarrow> Inr (\<lparr>h_ino = i, h_closed = False\<rparr>, wd\<lparr>w_inodes := (w_inodes wd)(i := [])\<rparr>)
           | None \<Rightarrow>
               Inr (\<lparr>h_ino = w_fresh wd, h_closed = False\<rparr>,
                    wd\<lparr>w_names := (w_names wd)(name \<mapsto> w_fresh wd),
                       w_inodes := (w_inodes wd)(w_fresh wd := []),
                       w_fresh := Suc (w_fresh wd)\<rparr>))"

definition os_Lstat :: "string \<Rightarrow> world \<Rightarrow> error option" where
  "os_Lstat name wd = (case w_names wd name of None \<Rightarrow> Some (ErrNotExist name) | Some i \<Rightarrow> None)"

definition os_Rename :: "string \<Rightarrow> string \<Rightarrow> world \<Rightarrow> error option \<times> world" where
  "os_Rename oldpath newpath wd =
     (case w_names wd oldpath of
        None \<Rightarrow> (Some (ErrNotExist oldpath), wd)
      | Some i \<Rightarrow>
          if newpath \<in> w_denied wd then (Some (ErrPermission newpath), wd)
          else (None, wd\<lparr>w_names := ((w_names wd)(oldpath := None))(newpath \<mapsto> i)\<rparr>))"

text \<open>\<open>os.Remove(name)\<close>; every caller in the package drops its error.\<close>

definition os_Remove :: "string \<Rightarrow> world \<Rightarrow> world" where
  "os_Remove name wd =
     wd\<lparr>w_names := (w_names wd)(name := None), w_removed := w_removed wd @ [name]\<rparr>"

text \<open>\<open>f.Write(b)\<close> on a handle that may be nil.\<close>

definition file_Write :: "handle option \<Rightarrow> string \<Rightarrow> world \<Rightarrow> error + world" where
  "file_Write f b wd =
     (case f of
        None \<Rightarrow> Inl ErrInvalid
      | Some h \<Rightarrow>
          if h_closed h then Inl ErrClosed
          else if w_full wd \<and> b \<noteq> [] then Inl ErrNoSpace
          else Inr (wd\<lparr>w_inodes := (w_inodes wd)(h_ino h := w_inodes wd (h_ino h) @ b)\<rparr>))"

text \<open>\<open>f.Stat()\<close>, of which the package reads the size only.\<close>

definition file_Stat :: "handle option \<Rightarrow> world \<Rightarrow> error + int" where
  "file_Stat f wd =
     (case f of
        None \<Rightarrow> Inl ErrInvalid
      | Some h \<Rightarrow>
          if h_closed h then Inl ErrClosed
          else Inr (int (length (w_inodes wd (h_ino h)))))"

text \<open>\<open>f.Close()\<close>; its error is dropped everywhere.\<close>

definition file_Close :: "handle option \<Rightarrow> handle option" where
  "file_Close f = (case f of None \<Rightarrow> None | Some h \<Rightarrow> Some (h\<lparr>h_closed := True\<rparr>))"

section \<open>Paths\<close>

text \<open>
  The functions of \<open>path/filepath\<close> the package calls, on slash-separated paths. Paths
  are taken to be clean (no \<open>.\<close> or \<open>..\<close> element, no doubled separator), where
  \<open>filepath.Clean\<close> does no more than drop a trailing separator.
\<close>

abbreviation SEP :: char where "SEP \<equiv> CHR ''/''"
abbreviation NL :: char where "NL \<equiv> CHR 0x0A"

definition strip_trailing_sep :: "string \<Rightarrow> string" where
  "strip_trailing_sep p = rev (dropWhile (\<lambda>c. c = SEP) (rev p))"

definition last_element :: "string \<Rightarrow> string" where
  "last_element p = rev (takeWhile (\<lambda>c. c \<noteq> SEP) (rev p))"

definition filepath_Base :: "string \<Rightarrow> string" where
  "filepath_Base p =
     (if p = [] then ''.''
      else let q = strip_trailing_sep p in if q = [] then ''/'' else last_element q)"

definition filepath_Clean :: "string \<Rightarrow> string" where
  "filepath_Clean p =
     (if p = [] then ''.''
      else let q = strip_trailing_sep p in if q = [] then ''/'' else q)"

definition filepath_Dir :: "string \<Rightarrow> string" where
  "filepath_Dir p = filepath_Clean (rev (dropWhile (\<lambda>c. c \<noteq> SEP) (rev p)))"

definition filepath_Join :: "string \<Rightarrow> string \<Rightarrow> string" where
  "filepath_Join d n =
     (if d = [] then filepath_Clean n
      else if n = [] then filepath_Clean d
      else filepath_Clean (d @ ''/'' @ n))"

definition filepath_Ext :: "string \<Rightarrow> string" where
  "filepath_Ext p =
     (let e = takeWhile (\<lambda>c. c \<noteq> SEP) (rev p)
      in if CHR ''.'' \<in> set e then rev (takeWhile (\<lambda>c. c \<noteq> CHR ''.'') e @ ''.'') else [])"

definition HasSuffix :: "string \<Rightarrow> string \<Rightarrow> bool" where
  "HasSuffix s suf = suffix suf s"

definition HasPrefix :: "string \<Rightarrow> string \<Rightarrow> bool" where
  "HasPrefix s pre = prefix pre s"

definition TrimSuffix :: "string \<Rightarrow> string \<Rightarrow> string" where
  "TrimSuffix s suf = (if HasSuffix s suf then take (length s - length suf) s else s)"

text \<open>\<open>%q\<close> of a string with nothing to escape.\<close>

definition quote :: "string \<Rightarrow> string" where
  "quote s = [CHR 0x22] @ s @ [CHR 0x22]"

section \<open>The file sink\<close>

record fileLogWriter =
  fw_Filename :: string
  fw_fileWriter :: "handle option"
  fw_MaxLines :: int
  fw_maxLinesCurLines :: int
  fw_MaxSize :: int
  fw_maxSizeCurSize :: int
  fw_Daily :: bool
  fw_MaxDays :: int
  fw_dailyOpenDate :: int
  fw_Rotate :: bool
  fw_LogLevel :: string
  fw_Level :: int
  fw_Perm :: nat
  fw_fileNameOnly :: string
  fw_MaxTotalSize :: int

definition MB :: int where "MB = 1024 * 1024"
definition ONE_DAY_SECONDS :: int where "ONE_DAY_SECONDS = 60 * 60 * 24"

definition newFileWriter :: fileLogWriter where
  "newFileWriter =
     \<lparr>fw_Filename = [], fw_fileWriter = None, fw_MaxLines = 1000000, fw_maxLinesCurLines = 0,
      fw_MaxSize = 256, fw_maxSizeCurSize = 0, fw_Daily = True, fw_MaxDays = 7,
      fw_dailyOpenDate = 0, fw_Rotate = True, fw_LogLevel = [], fw_Level = DEBUG,
      fw_Perm = 432, fw_fileNameOnly = [], fw_MaxTotalSize = 1024\<rparr>"

definition needRotate :: "fileLogWriter \<Rightarrow> int \<Rightarrow> int \<Rightarrow> bool" where
  "needRotate w sz day \<longleftrightarrow>
     (fw_MaxLines w > 0 \<and> fw_maxLinesCurLines w \<ge> fw_MaxLines w) \<or>
     (fw_MaxSize w > 0 \<and> fw_maxSizeCurSize w + sz \<ge> fw_MaxSize w) \<or>
     (fw_Daily w \<and> day \<noteq> fw_dailyOpenDate w)"

definition createLogFile :: "fileLogWriter \<Rightarrow> world \<Rightarrow> error + (handle \<times> world)" where
  "createLogFile w wd = os_OpenFile (fw_Filename w) wd"

text \<open>
  The read loop of \<open>lines\<close>: the file is read in pieces of at most 32768 bytes, the
  newlines of each piece are added to the count, and the loop ends at the end of the file.
\<close>

function read_loop :: "string \<Rightarrow> int \<Rightarrow> int" where
  "read_loop rest cnt =
     (if rest = [] then cnt
      else read_loop (drop 32768 rest) (cnt + int (count_list (take 32768 rest) NL)))"
  by pat_completeness auto
termination
  by (relation "measure (\<lambda>(rest, cnt). length rest)") auto

declare read_loop.simps [simp del]

definition lines :: "fileLogWriter \<Rightarrow> world \<Rightarrow> int \<times> error option" where
  "lines w wd =
     (case os_Open (fw_Filename w) wd of
        Inl err \<Rightarrow> (0, Some err)
      | Inr fd \<Rightarrow> (read_loop (w_inodes wd fd) 0, None))"

definition initFd :: "fileLogWriter \<Rightarrow> world \<Rightarrow> error option \<times> fileLogWriter" where
  "initFd w wd =
     (case file_Stat (fw_fileWriter w) wd of
        Inl err \<Rightarrow> (Some (ErrorString (''get stat err: '' @ error_text err @ [NL])), w)
      | Inr fsize \<Rightarrow>
          (let w1 = w\<lparr>fw_maxSizeCurSize := fsize,
                       fw_dailyOpenDate := int (t_day (w_now wd)),
                       fw_maxLinesCurLines := 0\<rparr>
           in if fsize > 0 then
                (case lines w1 wd of
                   (cnt, Some err) \<Rightarrow> (Some err, w1)
                 | (cnt, None) \<Rightarrow> (None, w1\<lparr>fw_maxLinesCurLines := cnt\<rparr>))
              else (None, w1)))"

definition startLogger :: "fileLogWriter \<Rightarrow> world \<Rightarrow> error option \<times> fileLogWriter \<times> world" where
  "startLogger w wd =
     (case createLogFile w wd of
        Inl err \<Rightarrow> (Some err, w, wd)
      | Inr (file, wd1) \<Rightarrow>
          (case initFd (w\<lparr>fw_fileWriter := Some file\<rparr>) wd1 of
             (err, w1) \<Rightarrow> (err, w1, wd1)))"

text \<open>
  \<open>doRotate\<close>. The \<open>go\<close> statement is recorded in \<open>w_spawned\<close>; the task itself
  (\<open>compressAndClean\<close>) is modelled below and runs apart from the write path.
\<close>

definition doRotate :: "fileLogWriter \<Rightarrow> time \<Rightarrow> world \<Rightarrow> error option \<times> fileLogWriter \<times> world" where
  "doRotate w logTime wd =
     (case os_Lstat (fw_Filename w) wd of
        Some err \<Rightarrow> (Some err, w, wd)
      | None \<Rightarrow>
          (let zipName0 = fw_fileNameOnly w @ ''.'' @ Format_LOG_PATTERN logTime @ ''.zip'';
               logName0 = fw_fileNameOnly w @ ''.'' @ Format_LOG_PATTERN logTime @ ''.log'';
               w1 = w\<lparr>fw_fileWriter := file_Close (fw_fileWriter w)\<rparr>;
               dir = filepath_Dir (fw_Filename w);
               zipName = (if dir \<noteq> ''.'' then filepath_Join dir zipName0 else zipName0);
               logName = (if dir \<noteq> ''.'' then filepath_Join dir logName0 else logName0)
           in case os_Rename (fw_Filename w) logName wd of
                (renameErr, wd1) \<Rightarrow>
                  (case startLogger w1 wd1 of
                     (startLoggerErr, w2, wd2) \<Rightarrow>
                       (let wd3 = wd2\<lparr>w_spawned := w_spawned wd2 @ [(logName, zipName)]\<rparr>
                        in case startLoggerErr of
                             Some e \<Rightarrow>
                               (Some (ErrorString (''Rotate StartLogger: '' @ error_text e @ [NL])), w2, wd3)
                           | None \<Rightarrow>
                               (case renameErr of
                                  Some e \<Rightarrow> (Some (ErrorString (''Rotate: '' @ error_text e @ [NL])), w2, wd3)
                                | None \<Rightarrow> (None, w2, wd3))))))"

text \<open>
  The rotation step of \<open>WriteMsg\<close>: the check outside the lock, the same check under
  the lock, and the report of a failed rotation on the diagnostic stream.
\<close>

definition rotate_step :: "fileLogWriter \<Rightarrow> time \<Rightarrow> string \<Rightarrow> int \<Rightarrow> world \<Rightarrow> fileLogWriter \<times> world" where
  "rotate_step w when msg d wd =
     (if fw_Rotate w then
        (if needRotate w (int (length msg)) d then
           (if needRotate w (int (length msg)) d then
              (case doRotate w when wd of
                 (Some err, w1, wd1) \<Rightarrow>
                   (w1, wd1\<lparr>w_stderr := w_stderr wd1 @
                        [''FileLogWriter('' @ quote (fw_Filename w) @ ''): '' @ error_text err @ [NL]]\<rparr>)
               | (None, w1, wd1) \<Rightarrow> (w1, wd1))
            else (w, wd))
         else (w, wd))
      else (w, wd))"

text \<open>The line \<open>WriteMsg\<close> builds from the header and the message.\<close>

definition format_line :: "fileLogWriter \<Rightarrow> string \<Rightarrow> string \<Rightarrow> world \<Rightarrow> string" where
  "format_line w h msg wd =
     (if fw_Level w = DEBUG then h @ ''['' @ getGID wd @ '']'' @ msg @ [NL]
      else h @ msg @ [NL])"

definition file_WriteMsg ::
  "fileLogWriter \<Rightarrow> time \<Rightarrow> string \<Rightarrow> int \<Rightarrow> world \<Rightarrow> error option \<times> fileLogWriter \<times> world" where
  "file_WriteMsg w when msg level wd =
     (if level < fw_Level w then (None, w, wd)
      else case formatTimeHeader when of
        (h, d, errTime) \<Rightarrow>
          (case errTime of
             Some e \<Rightarrow> (Some e, w, wd)
           | None \<Rightarrow>
               (let msg1 = format_line w h msg wd in
                case rotate_step w when msg1 d wd of
                  (w1, wd1) \<Rightarrow>
                    (case file_Write (fw_fileWriter w1) msg1 wd1 of
                       Inl err \<Rightarrow> (Some err, w1, wd1)
                     | Inr wd2 \<Rightarrow>
                         (None,
                          w1\<lparr>fw_maxLinesCurLines := fw_maxLinesCurLines w1 + 1,
                             fw_maxSizeCurSize := fw_maxSizeCurSize w1 + int (length msg1)\<rparr>,
                          wd2)))))"

text \<open>
  \<open>Init\<close>. \<open>json.Unmarshal\<close> is a parameter: it fills the fields the text names and
  may fail.
\<close>

definition file_Init ::
  "(string \<Rightarrow> fileLogWriter \<Rightarrow> error option \<times> fileLogWriter) \<Rightarrow> fileLogWriter \<Rightarrow> string \<Rightarrow> world
     \<Rightarrow> error option \<times> fileLogWriter \<times> world" where
  "file_Init unmarshal w jsonConfig wd =
     (case unmarshal jsonConfig w of
        (Some err, w0) \<Rightarrow> (Some err, w0, wd)
      | (None, w0) \<Rightarrow>
          if length (fw_Filename w0) = 0 then
            (Some (ErrorString ''jsonconfig must have filename''), w0, wd)
          else
            (let w1 = w0\<lparr>fw_Level := transLogLevel (fw_LogLevel w0)\<rparr>;
                 suffix = filepath_Ext (fw_Filename w1);
                 w2 = w1\<lparr>fw_fileNameOnly := TrimSuffix (filepath_Base (fw_Filename w1)) suffix\<rparr>;
                 w3 = w2\<lparr>fw_MaxSize := fw_MaxSize w2 * MB\<rparr>;
                 w4 = w3\<lparr>fw_MaxTotalSize := fw_MaxTotalSize w3 * MB\<rparr>
             in startLogger w4 wd))"

section \<open>Compression and retention\<close>

text \<open>
  \<open>compressFile\<close>. The deferred calls run at every return after the one that registered
  them, last registered first: the archiver and the writer are closed, then the reader
  is closed and the source removed. \<open>gz name content\<close> is the gzip stream \<open>compress/gzip\<close>
  writes for an entry name and a content; it is a parameter.
\<close>

definition compressFile ::
  "(string \<Rightarrow> string \<Rightarrow> string) \<Rightarrow> string \<Rightarrow> string \<Rightarrow> world \<Rightarrow> error option \<times> world" where
  "compressFile gz source target wd =
     (case os_Open source wd of
        Inl err \<Rightarrow> (Some err, wd)
      | Inr reader \<Rightarrow>
          (let filename = filepath_Base source
           in case os_Create target wd of
                Inl err \<Rightarrow> (Some err, os_Remove source wd)
              | Inr (writer, wd1) \<Rightarrow>
                  (case file_Write (Some writer) (gz filename (w_inodes wd1 reader)) wd1 of
                     Inl err \<Rightarrow> (Some err, os_Remove source wd1)
                   | Inr wd2 \<Rightarrow> (None, os_Remove source wd2))))"

text \<open>
  \<open>deleteOldLog\<close> walks the directory of the log file. The model takes what
  \<open>filepath.Walk\<close> does as its input: the calls of the walk function in their order, each
  with the path, the \<open>os.FileInfo\<close> (nil when the walk could not read it) and the
  reading of \<open>time.Now()\<close> made in that call.
\<close>

record FileInfo =
  fi_Name :: string
  fi_Size :: int
  fi_ModTime :: time
  fi_IsDir :: bool

record walk_step =
  ws_path :: string
  ws_info :: "FileInfo option"
  ws_now :: time

text \<open>The three variables the walk function closes over.\<close>

record scan =
  sc_totalSize :: int
  sc_fileTimeMap :: "string \<rightharpoonup> FileInfo"
  sc_timeKeys :: "string list"

definition scan0 :: scan where
  "scan0 = \<lparr>sc_totalSize = 0, sc_fileTimeMap = Map.empty, sc_timeKeys = []\<rparr>"

text \<open>
  The walk function. With a nil \<open>info\<close> the call \<open>info.IsDir()\<close> panics; the deferred
  function recovers, prints, and the walk goes on.
\<close>

definition walkFn :: "fileLogWriter \<Rightarrow> scan \<times> world \<Rightarrow> walk_step \<Rightarrow> scan \<times> world" where
  "walkFn w acc st =
     (case acc of (sc, wd) \<Rightarrow>
        (case ws_info st of
           None \<Rightarrow>
             (sc, wd\<lparr>w_stderr := w_stderr wd @
                 [''Unable to delete old log '' @ [CHR 0x27] @ ws_path st @ [CHR 0x27] @
                  '', error: runtime error: invalid memory address or nil pointer dereference'' @ [NL]]\<rparr>)
         | Some info \<Rightarrow>
             if fi_IsDir info then (sc, wd)
             else if \<not> HasPrefix (filepath_Base (ws_path st)) (fw_fileNameOnly w) then (sc, wd)
             else if t_unix (fi_ModTime info) < t_unix (ws_now st) - ONE_DAY_SECONDS * fw_MaxDays w
               then (sc, os_Remove (ws_path st) wd)
             else
               (let timeKey = Format_LOG_PATTERN (fi_ModTime info)
                in (sc\<lparr>sc_fileTimeMap := (sc_fileTimeMap sc)(timeKey \<mapsto> info),
                       sc_timeKeys := sc_timeKeys sc @ [timeKey],
                       sc_totalSize := sc_totalSize sc + fi_Size info\<rparr>, wd))))"

text \<open>
  The loop over the sorted keys. \<open>None\<close> is the panic of \<open>fileTimeMap[v].Size()\<close> on a
  key with no entry.
\<close>

fun size_loop :: "string \<Rightarrow> (string \<rightharpoonup> FileInfo) \<Rightarrow> int \<Rightarrow> string list \<Rightarrow> int \<Rightarrow> world \<Rightarrow> world option" where
  "size_loop dir m excess [] delSize wd = Some wd"
| "size_loop dir m excess (v # vs) delSize wd =
     (if delSize > excess then Some wd
      else case m v of
             None \<Rightarrow> None
           | Some info \<Rightarrow>
               size_loop dir m excess vs (delSize + fi_Size info)
                 (os_Remove (filepath_Join dir (fi_Name info)) wd))"

definition deleteOldLog :: "fileLogWriter \<Rightarrow> walk_step list \<Rightarrow> world \<Rightarrow> world option" where
  "deleteOldLog w walk wd =
     (let dir = filepath_Dir (fw_Filename w)
      in case foldl (walkFn w) (scan0, wd) walk of
           (sc, wd1) \<Rightarrow>
             if sc_totalSize sc - fw_MaxTotalSize w \<le> 0 then Some wd1
             else size_loop dir (sc_fileTimeMap sc) (sc_totalSize sc - fw_MaxTotalSize w)
                    (sort (sc_timeKeys sc)) 0 wd1)"

text \<open>
  \<open>compressAndClean\<close>, the background task: \<open>walk\<close> is what the walk meets once the
  compression is over.
\<close>

definition compressAndClean ::
  "(string \<Rightarrow> string \<Rightarrow> string) \<Rightarrow> fileLogWriter \<Rightarrow> string \<Rightarrow> string \<Rightarrow> walk_step list \<Rightarrow> world \<Rightarrow> world option" where
  "compressAndClean gz w logName zipName walk wd =
     (case compressFile gz logName zipName wd of (err, wd1) \<Rightarrow> deleteOldLog w walk wd1)"

section \<open>The console sink\<close>

text \<open>The writer of a console sink is \<open>os.Stdout\<close>: \<open>NewConsole\<close> alone sets it.\<close>

record consoleWriter =
  cw_LogLevel :: string
  cw_Level :: int

definition NewConsole :: consoleWriter where
  "NewConsole = \<lparr>cw_LogLevel = ''DEBUG'', cw_Level = DEBUG\<rparr>"


definition console_Init ::
  "(string \<Rightarrow> consoleWriter \<Rightarrow> error option \<times> consoleWriter) \<Rightarrow> consoleWriter \<Rightarrow> string
     \<Rightarrow> error option \<times> consoleWriter" where
  "console_Init unmarshal c jsonConfig =
     (if length jsonConfig = 0 then (None, c)
      else case unmarshal jsonConfig c of
             (err, c0) \<Rightarrow> (err, c0\<lparr>cw_Level := transLogLevel (cw_LogLevel c0)\<rparr>))"


section \<open>The dispatcher\<close>

text \<open>A \<open>LoggerItf\<close> value is one of the two sinks of the package.\<close>

datatype sink = ConsoleSink consoleWriter | FileSink fileLogWriter






text \<open>
  The registry: a type name is bound to a factory. A factory is modelled by the fresh
  sink it returns; the factory argument of \<open>Register\<close> may be nil (\<open>None\<close>). A panic is
  the left summand, with its message.
\<close>

type_synonym adapters = "string \<rightharpoonup> sink"

definition Register :: "string \<Rightarrow> sink option \<Rightarrow> adapters \<Rightarrow> world \<Rightarrow> string + (adapters \<times> world)" where
  "Register name log ad wd =
     (case log of
        None \<Rightarrow> Inl (''logs:Register is nil, name:'' @ name)
      | Some f \<Rightarrow>
          (case ad name of
             Some g \<Rightarrow>
               Inr (ad, wd\<lparr>w_stdout := w_stdout wd @
                               [''logs:Register is dumplicated, name: '' @ name @ [NL]]\<rparr>)
           | None \<Rightarrow> Inr (ad(name \<mapsto> f), wd)))"

text \<open>The look-up of the registry, as \<open>setLogger\<close> does it: \<open>adapters[logType]\<close>.\<close>

definition lookup_adapter :: "adapters \<Rightarrow> string \<Rightarrow> error + sink" where
  "lookup_adapter ad logType =
     (case ad logType of
        None \<Rightarrow> Inl (ErrorString (''logs: unkown logType '' @ quote logType))
      | Some logFun \<Rightarrow> Inr logFun)"

text \<open>The registry after the \<open>init\<close> functions of the package have run.\<close>

definition init_adapters :: adapters where
  "init_adapters = [''file'' \<mapsto> FileSink newFileWriter, ''console'' \<mapsto> ConsoleSink NewConsole]"










section \<open>Notions the statements use\<close>

definition level_names :: "string set" where
  "level_names = {''DEBUG'', ''INFO'', ''WARN'', ''ERROR'', ''FATAL''}"

text \<open>The fields \<open>Init\<close> sets before it opens the file.\<close>

definition init_fields :: "fileLogWriter \<Rightarrow> fileLogWriter" where
  "init_fields w0 =
     w0\<lparr>fw_Level := transLogLevel (fw_LogLevel w0),
        fw_fileNameOnly := TrimSuffix (filepath_Base (fw_Filename w0)) (filepath_Ext (fw_Filename w0)),
        fw_MaxSize := fw_MaxSize w0 * MB,
        fw_MaxTotalSize := fw_MaxTotalSize w0 * MB\<rparr>"


text \<open>Decimal digits, and the number a string of digits denotes.\<close>

definition is_digit :: "char \<Rightarrow> bool" where
  "is_digit c \<longleftrightarrow> c \<in> set ''0123456789''"

definition digit_value :: "char \<Rightarrow> nat" where
  "digit_value c = of_char c - 48"

definition dec :: "string \<Rightarrow> nat" where
  "dec s = foldl (\<lambda>a c. 10 * a + digit_value c) 0 s"

text \<open>A field of a layout: \<open>s\<close> has the width, holds digits only and denotes \<open>n\<close>.\<close>

definition field :: "nat \<Rightarrow> nat \<Rightarrow> string \<Rightarrow> bool" where
  "field width n s \<longleftrightarrow> length s = width \<and> list_all is_digit s \<and> dec s = n"

text \<open>A time whose civil fields are in the ranges of a calendar date and a clock.\<close>

definition civil :: "time \<Rightarrow> bool" where
  "civil t \<longleftrightarrow>
     t_year t < 10000 \<and> 1 \<le> t_month t \<and> t_month t \<le> 12 \<and> 1 \<le> t_day t \<and> t_day t \<le> 31 \<and>
     t_hour t < 24 \<and> t_minute t < 60 \<and> t_second t < 60 \<and> t_nanosecond t < 1000000000"





text \<open>
  Retention. A step of the walk is a regular match when it carries a file information,
  is no directory and its base name has the prefix of the sink; it is expired when the
  modification time is older than the reading of the clock less \<open>MaxDays\<close> days. The
  survivors are the regular matches that are not expired, in the order of the walk.
\<close>

definition timeKey :: "FileInfo \<Rightarrow> string" where
  "timeKey info = Format_LOG_PATTERN (fi_ModTime info)"

definition regular_match :: "fileLogWriter \<Rightarrow> walk_step \<Rightarrow> bool" where
  "regular_match w st \<longleftrightarrow>
     (case ws_info st of
        None \<Rightarrow> False
      | Some info \<Rightarrow> \<not> fi_IsDir info \<and> HasPrefix (filepath_Base (ws_path st)) (fw_fileNameOnly w))"

definition expired :: "fileLogWriter \<Rightarrow> walk_step \<Rightarrow> bool" where
  "expired w st \<longleftrightarrow>
     (case ws_info st of
        None \<Rightarrow> False
      | Some info \<Rightarrow>
          t_unix (fi_ModTime info) < t_unix (ws_now st) - ONE_DAY_SECONDS * fw_MaxDays w)"


definition expired_paths :: "fileLogWriter \<Rightarrow> walk_step list \<Rightarrow> string list" where
  "expired_paths w walk = map ws_path (filter (\<lambda>st. regular_match w st \<and> expired w st) walk)"




section \<open>Example states\<close>

text \<open>Concrete values on which the theorems below are run.\<close>

definition t0 :: time where
  "t0 = \<lparr>t_year = 2024, t_month = 3, t_day = 5, t_hour = 10, t_minute = 18, t_second = 51,
          t_nanosecond = 453993000, t_unix = 1709633931\<rparr>"

definition world0 :: world where
  "world0 = \<lparr>w_names = Map.empty, w_inodes = (\<lambda>i. []), w_fresh = 0, w_denied = {},
     w_full = False, w_removed = [], w_stdout = [], w_stderr = [], w_spawned = [],
     w_now = t0, w_gid = ''1'', w_caller = (\<lambda>d. None)\<rparr>"

text \<open>A configuration text that names the file and a level that does not exist.\<close>

definition unmarshal_example :: "string \<Rightarrow> fileLogWriter \<Rightarrow> error option \<times> fileLogWriter" where
  "unmarshal_example cfg w = (None, w\<lparr>fw_Filename := ''logs/app.log'', fw_LogLevel := ''VERBOSE''\<rparr>)"

text \<open>
  A file sink at level \<open>INFO\<close> whose file \<open>logs/app.log\<close> is open on inode 0 and holds
  three lines, with a limit of three lines.
\<close>

definition world1 :: world where
  "world1 = world0\<lparr>w_names := [''logs/app.log'' \<mapsto> 0],
                   w_inodes := (\<lambda>i. if i = 0 then ''a'' @ [NL] @ ''b'' @ [NL] @ ''c'' @ [NL] else []),
                   w_fresh := 1\<rparr>"

definition sink1 :: fileLogWriter where
  "sink1 = newFileWriter\<lparr>fw_Filename := ''logs/app.log'',
                         fw_fileWriter := Some \<lparr>h_ino = 0, h_closed = False\<rparr>,
                         fw_MaxLines := 3, fw_maxLinesCurLines := 3,
                         fw_MaxSize := 256 * MB, fw_maxSizeCurSize := 6,
                         fw_dailyOpenDate := 5, fw_LogLevel := ''INFO'', fw_Level := INFO,
                         fw_fileNameOnly := ''app'', fw_MaxTotalSize := 1024 * MB\<rparr>"





text \<open>
  A log directory for retention: the directory itself, three files with the prefix of the
  sink, of 5 MB (the oldest), 7 MB and 3 MB (the newest, the active file), all younger than
  seven days at the time \<open>t0\<close> of the walk, and a file of another name. The sink allows
  10 MB in total.
\<close>

definition tA :: time where "tA = t0\<lparr>t_day := 1, t_unix := 1709288331\<rparr>"
definition tB :: time where "tB = t0\<lparr>t_day := 2, t_unix := 1709374731\<rparr>"
definition tC :: time where "tC = t0\<lparr>t_day := 3, t_unix := 1709461131\<rparr>"

definition dirL :: FileInfo where
  "dirL = \<lparr>fi_Name = ''logs'', fi_Size = 4096, fi_ModTime = tC, fi_IsDir = True\<rparr>"
definition fileA :: FileInfo where
  "fileA = \<lparr>fi_Name = ''app.2024-03-01-10-18-51.zip'', fi_Size = 5 * MB, fi_ModTime = tA, fi_IsDir = False\<rparr>"
definition fileB :: FileInfo where
  "fileB = \<lparr>fi_Name = ''app.2024-03-02-10-18-51.zip'', fi_Size = 7 * MB, fi_ModTime = tB, fi_IsDir = False\<rparr>"
definition fileC :: FileInfo where
  "fileC = \<lparr>fi_Name = ''app.log'', fi_Size = 3 * MB, fi_ModTime = tC, fi_IsDir = False\<rparr>"
definition fileX :: FileInfo where
  "fileX = \<lparr>fi_Name = ''other.txt'', fi_Size = 100 * MB, fi_ModTime = tA, fi_IsDir = False\<rparr>"

definition walkR :: "walk_step list" where
  "walkR =
     [\<lparr>ws_path = ''logs'', ws_info = Some dirL, ws_now = t0\<rparr>,
      \<lparr>ws_path = ''logs/app.2024-03-01-10-18-51.zip'', ws_info = Some fileA, ws_now = t0\<rparr>,
      \<lparr>ws_path = ''logs/app.2024-03-02-10-18-51.zip'', ws_info = Some fileB, ws_now = t0\<rparr>,
      \<lparr>ws_path = ''logs/app.log'', ws_info = Some fileC, ws_now = t0\<rparr>,
      \<lparr>ws_path = ''logs/other.txt'', ws_info = Some fileX, ws_now = t0\<rparr>]"

definition sinkR :: fileLogWriter where
  "sinkR = sink1\<lparr>fw_MaxTotalSize := 10 * MB\<rparr>"






section \<open>Level names and \<open>Init\<close>\<close>

lemma initFd_Level: "fw_Level (snd (initFd w wd)) = fw_Level w"
  by (simp add: initFd_def Let_def split: sum.splits prod.splits option.splits)

lemma startLogger_Level: "fw_Level (fst (snd (startLogger w wd))) = fw_Level w"
proof (cases "createLogFile w wd")
  case (Inl e)
  then show ?thesis by (simp add: startLogger_def)
next
  case (Inr r)
  obtain fd wd1 where r: "r = (fd, wd1)" by (cases r)
  show ?thesis
    using Inr r initFd_Level[of "w\<lparr>fw_fileWriter := Some fd\<rparr>" wd1]
    by (simp add: startLogger_def case_prod_beta)
qed

lemma initFd_LogLevel_indep: "fst (initFd (w\<lparr>fw_LogLevel := a\<rparr>) wd) = fst (initFd w wd)"
  by (simp add: initFd_def lines_def Let_def split: sum.splits prod.splits option.splits)

lemma createLogFile_LogLevel: "createLogFile (w\<lparr>fw_LogLevel := a\<rparr>) wd = createLogFile w wd"
  by (simp add: createLogFile_def)

lemma startLogger_LogLevel_indep:
  "fst (startLogger (w\<lparr>fw_LogLevel := a\<rparr>) wd) = fst (startLogger w wd)"
  by (simp add: startLogger_def createLogFile_def initFd_def lines_def Let_def case_prod_beta
      split: sum.splits option.splits)

lemma transLogLevel_other: "level \<notin> level_names \<Longrightarrow> transLogLevel level = DEBUG"
  by (simp add: transLogLevel_def level_names_def)

lemma file_Init_ok:
  assumes "unmarshal cfg w = (None, w0)" "fw_Filename w0 \<noteq> []"
  shows "file_Init unmarshal w cfg wd = startLogger (init_fields w0) wd"
  using assms by (simp add: file_Init_def init_fields_def Let_def)

lemma file_Init_Level:
  assumes "unmarshal cfg w = (None, w0)" "fw_Filename w0 \<noteq> []"
  shows "fw_Level (fst (snd (file_Init unmarshal w cfg wd))) = transLogLevel (fw_LogLevel w0)"
  using assms by (simp add: file_Init_ok startLogger_Level init_fields_def)

lemma file_Init_err_indep:
  assumes "unmarshal cfg w = (None, w0)" "fw_Filename w0 \<noteq> []" "fw_LogLevel w0 \<notin> level_names"
  shows "fst (file_Init unmarshal w cfg wd)
       = fst (file_Init (\<lambda>c v. (None, w0\<lparr>fw_LogLevel := ''DEBUG''\<rparr>)) w cfg wd)"
proof -
  have a: "init_fields (w0\<lparr>fw_LogLevel := ''DEBUG''\<rparr>) = (init_fields w0)\<lparr>fw_LogLevel := ''DEBUG''\<rparr>"
    using assms(3) by (simp add: init_fields_def transLogLevel_other) (simp add: transLogLevel_def)
  show ?thesis
    using assms(1,2) by (simp add: file_Init_ok a startLogger_LogLevel_indep)
qed

text \<open>
  Claim C10. \<open>transLogLevel\<close> maps the five names \<open>DEBUG\<close>, \<open>INFO\<close>, \<open>WARN\<close>, \<open>ERROR\<close>,
  \<open>FATAL\<close> to the ordinals 0 to 4 and every other string to \<open>DEBUG\<close>. A file sink whose
  configuration names such a string (and a file) comes out of \<open>Init\<close> at level \<open>DEBUG\<close>,
  and \<open>Init\<close> returns what it returns for the level \<open>DEBUG\<close>: the level never makes it fail.
\<close>

theorem transLogLevel_default:
  "transLogLevel ''DEBUG'' = 0 \<and> transLogLevel ''INFO'' = 1 \<and> transLogLevel ''WARN'' = 2 \<and>
   transLogLevel ''ERROR'' = 3 \<and> transLogLevel ''FATAL'' = 4 \<and>
   (level \<notin> {''DEBUG'', ''INFO'', ''WARN'', ''ERROR'', ''FATAL''} \<longrightarrow> transLogLevel level = DEBUG) \<and>
   (unmarshal cfg w = (None, w0) \<and> fw_Filename w0 \<noteq> [] \<and>
    fw_LogLevel w0 \<notin> {''DEBUG'', ''INFO'', ''WARN'', ''ERROR'', ''FATAL''} \<longrightarrow>
      fw_Level (fst (snd (file_Init unmarshal w cfg wd))) = DEBUG \<and>
      fst (file_Init unmarshal w cfg wd)
        = fst (file_Init (\<lambda>c v. (None, w0\<lparr>fw_LogLevel := ''DEBUG''\<rparr>)) w cfg wd))"
proof -
  have names: "transLogLevel ''DEBUG'' = 0 \<and> transLogLevel ''INFO'' = 1 \<and> transLogLevel ''WARN'' = 2 \<and>
   transLogLevel ''ERROR'' = 3 \<and> transLogLevel ''FATAL'' = 4"
    by (simp add: transLogLevel_def DEBUG_def INFO_def WARN_def ERROR_def FATAL_def)
  have other: "level \<notin> {''DEBUG'', ''INFO'', ''WARN'', ''ERROR'', ''FATAL''} \<longrightarrow> transLogLevel level = DEBUG"
    using transLogLevel_other[of level] by (simp add: level_names_def)
  have init: "unmarshal cfg w = (None, w0) \<and> fw_Filename w0 \<noteq> [] \<and>
    fw_LogLevel w0 \<notin> {''DEBUG'', ''INFO'', ''WARN'', ''ERROR'', ''FATAL''} \<longrightarrow>
      fw_Level (fst (snd (file_Init unmarshal w cfg wd))) = DEBUG \<and>
      fst (file_Init unmarshal w cfg wd)
        = fst (file_Init (\<lambda>c v. (None, w0\<lparr>fw_LogLevel := ''DEBUG''\<rparr>)) w cfg wd)"
    using file_Init_Level[of unmarshal cfg w w0 wd] file_Init_err_indep[of unmarshal cfg w w0 wd]
      transLogLevel_other[of "fw_LogLevel w0"]
    by (simp add: level_names_def)
  from names other init show ?thesis by blast
qed

theorem transLogLevel_default_witness:
  "transLogLevel ''VERBOSE'' = 0 \<and> transLogLevel [] = 0 \<and> transLogLevel ''debug'' = 0 \<and>
   fw_Level (fst (snd (file_Init unmarshal_example newFileWriter ''{}'' world0))) = 0 \<and>
   fst (file_Init unmarshal_example newFileWriter ''{}'' world0) = None"
proof -
  have u: "unmarshal_example ''{}'' newFileWriter
             = (None, newFileWriter\<lparr>fw_Filename := ''logs/app.log'', fw_LogLevel := ''VERBOSE''\<rparr>)"
    by (simp add: unmarshal_example_def)
  have e: "fst (file_Init unmarshal_example newFileWriter ''{}'' world0) = None"
    by (simp add: file_Init_def unmarshal_example_def newFileWriter_def world0_def startLogger_def
       createLogFile_def os_OpenFile_def initFd_def file_Stat_def Let_def)
  show ?thesis
    using transLogLevel_default[of "''VERBOSE''" unmarshal_example "''{}''" newFileWriter
        "newFileWriter\<lparr>fw_Filename := ''logs/app.log'', fw_LogLevel := ''VERBOSE''\<rparr>" world0]
      transLogLevel_default[of "[]"] transLogLevel_default[of "''debug''"] u e
    by (simp add: DEBUG_def)
qed

section \<open>The registry\<close>

text \<open>
  Claim C9. \<open>Register\<close> with a nil factory panics whatever the name, registered or not,
  and panics in no other case. With a factory that is not nil it returns: for a name
  already bound it prints a warning on the standard output and leaves the registry as it
  was; for a new name it binds it. The look-up of the registry returns an error value
  for an unknown name.
\<close>

theorem Register_nil_panics:
  "Register name None ad wd = Inl (''logs:Register is nil, name:'' @ name) \<and>
   ((\<exists>m. Register name log ad wd = Inl m) \<longleftrightarrow> log = None) \<and>
   (ad name = Some g \<longrightarrow>
      Register name (Some f) ad wd =
        Inr (ad, wd\<lparr>w_stdout := w_stdout wd @
                    [''logs:Register is dumplicated, name: '' @ name @ [NL]]\<rparr>)) \<and>
   (ad name = None \<longrightarrow> Register name (Some f) ad wd = Inr (ad(name \<mapsto> f), wd)) \<and>
   (ad name = None \<longrightarrow> (\<exists>e. lookup_adapter ad name = Inl e)) \<and>
   (ad name = Some g \<longrightarrow> lookup_adapter ad name = Inr g)"
  by (cases log) (auto simp: Register_def lookup_adapter_def split: option.splits)

theorem Register_nil_panics_witness:
  "Register ''file'' None init_adapters world0 = Inl ''logs:Register is nil, name:file'' \<and>
   init_adapters ''file'' = Some (FileSink newFileWriter) \<and>
   Register ''file'' (Some (ConsoleSink NewConsole)) init_adapters world0 =
     Inr (init_adapters,
          world0\<lparr>w_stdout := w_stdout world0 @ [''logs:Register is dumplicated, name: file'' @ [NL]]\<rparr>) \<and>
   lookup_adapter init_adapters ''file'' = Inr (FileSink newFileWriter) \<and>
   (\<exists>e. lookup_adapter init_adapters ''syslog'' = Inl e)"
proof -
  have a: "init_adapters ''file'' = Some (FileSink newFileWriter)"
    by (simp add: init_adapters_def)
  have b: "init_adapters ''syslog'' = None"
    by (simp add: init_adapters_def)
  show ?thesis
    using Register_nil_panics[of "''file''" init_adapters world0 None "FileSink newFileWriter"
        "ConsoleSink NewConsole"]
      Register_nil_panics[of "''syslog''" init_adapters world0 None "FileSink newFileWriter"
        "ConsoleSink NewConsole"] a b
    by simp
qed

section \<open>The rotation triggers\<close>










section \<open>The record header\<close>

lemma digit_cases:
  "d < 10 \<Longrightarrow> d = 0 \<or> d = 1 \<or> d = 2 \<or> d = 3 \<or> d = 4 \<or> d = 5 \<or> d = 6 \<or> d = 7 \<or> d = 8 \<or> d = (9::nat)"
  by arith

lemma digit_ok: "d < 10 \<Longrightarrow> is_digit (digit d) \<and> digit_value (digit d) = d"
  using digit_cases[of d] by (auto simp: digit_def is_digit_def digit_value_def)

lemma dec_snoc: "dec (s @ [c]) = 10 * dec s + digit_value c"
  by (simp add: dec_def)

lemma itoa_digits: "list_all is_digit (itoa n)"
proof (induction n rule: itoa.induct)
  case (1 n)
  show ?case
  proof (cases "n < 10")
    case True
    then show ?thesis by (simp add: itoa.simps[of n] digit_ok)
  next
    case False
    with 1 show ?thesis by (simp add: itoa.simps[of n] digit_ok)
  qed
qed

lemma dec_itoa: "dec (itoa n) = n"
proof (induction n rule: itoa.induct)
  case (1 n)
  show ?case
  proof (cases "n < 10")
    case True
    then show ?thesis by (simp add: itoa.simps[of n] dec_def digit_ok)
  next
    case False
    with 1 show ?thesis by (simp add: itoa.simps[of n] dec_snoc digit_ok)
  qed
qed

lemma length_itoa: "0 < k \<Longrightarrow> n < 10 ^ k \<Longrightarrow> length (itoa n) \<le> k"
proof (induction n arbitrary: k rule: itoa.induct)
  case (1 n)
  show ?case
  proof (cases "n < 10")
    case True
    with 1(2) show ?thesis by (simp add: itoa.simps[of n])
  next
    case False
    obtain j where k: "k = Suc j" using 1(2) by (cases k) auto
    have "j > 0" using False 1(3) k by (cases j) auto
    moreover have "n div 10 < 10 ^ j" using 1(3) k by (simp add: less_mult_imp_div_less mult.commute)
    ultimately have "length (itoa (n div 10)) \<le> j" using 1(1)[OF False] by blast
    with False k show ?thesis by (simp add: itoa.simps[of n])
  qed
qed

lemma itoa_no_leading_zero: "n \<noteq> 0 \<Longrightarrow> hd (itoa n) \<noteq> CHR ''0''"
proof (induction n rule: itoa.induct)
  case (1 n)
  show ?case
  proof (cases "n < 10")
    case True
    with 1(2) digit_cases[of n] show ?thesis by (auto simp: itoa.simps[of n] digit_def)
  next
    case False
    then have "n div 10 \<noteq> 0" by simp
    with 1(1)[OF False] have h: "hd (itoa (n div 10)) \<noteq> CHR ''0''" by blast
    have "itoa (n div 10) \<noteq> []" by (simp add: itoa.simps[of "n div 10"])
    with h False show ?thesis by (simp add: itoa.simps[of n])
  qed
qed

lemma dec_zeros: "dec (replicate k (CHR ''0'') @ s) = dec s"
proof -
  have "foldl (\<lambda>a c. 10 * a + digit_value c) 0 (replicate k (CHR ''0'')) = 0"
    by (induction k) (simp_all add: digit_value_def)
  then show ?thesis by (simp add: dec_def)
qed

lemma zpad_field: "0 < width \<Longrightarrow> n < 10 ^ width \<Longrightarrow> field width n (zpad width n)"
proof -
  assume a: "0 < width" "n < 10 ^ width"
  have z: "is_digit (CHR ''0'')" by (simp add: is_digit_def)
  have "list_all is_digit (replicate (width - length (itoa n)) (CHR ''0''))"
    using z by (simp add: list_all_iff)
  then show ?thesis
    using length_itoa[OF a] itoa_digits[of n]
    by (simp add: field_def zpad_def dec_zeros dec_itoa)
qed

lemma Format_header_fields:
  assumes "civil t"
  shows "field 4 (t_year t) (zpad 4 (t_year t)) \<and> field 2 (t_month t) (zpad 2 (t_month t)) \<and>
         field 2 (t_day t) (zpad 2 (t_day t)) \<and> field 2 (t_hour t) (zpad 2 (t_hour t)) \<and>
         field 2 (t_minute t) (zpad 2 (t_minute t)) \<and> field 2 (t_second t) (zpad 2 (t_second t))"
  using assms by (simp add: civil_def zpad_field)

lemma micros_field:
  assumes "civil t"
  shows "list_all is_digit (itoa (t_nanosecond t div 1000)) \<and>
         dec (itoa (t_nanosecond t div 1000)) = t_nanosecond t div 1000 \<and>
         length (itoa (t_nanosecond t div 1000)) \<le> 6"
proof -
  have "t_nanosecond t < 1000000000" using assms by (simp add: civil_def)
  then have "t_nanosecond t div 1000 < 1000000" by arith
  then have "t_nanosecond t div 1000 < 10 ^ 6" by simp
  then show ?thesis using length_itoa[of 6 "t_nanosecond t div 1000"] by (simp add: itoa_digits dec_itoa)
qed

lemma formatTimeHeader_text:
  "fst (formatTimeHeader t) =
     ''['' @ zpad 4 (t_year t) @ ''-'' @ zpad 2 (t_month t) @ ''-'' @ zpad 2 (t_day t) @ '' '' @
     zpad 2 (t_hour t) @ '':'' @ zpad 2 (t_minute t) @ '':'' @ zpad 2 (t_second t) @ ''.'' @
     itoa (t_nanosecond t div 1000) @ '']''"
  by (simp add: formatTimeHeader_def Format_header_def)

lemma file_WriteMsg_written:
  assumes "fw_Level w \<le> level" "file_WriteMsg w when msg level wd = (None, w', wd')"
  shows "\<exists>h pre. fw_fileWriter w' = Some h \<and> \<not> h_closed h \<and>
           w_inodes wd' (h_ino h) = pre @ format_line w (fst (formatTimeHeader when)) msg wd"
proof -
  let ?m = "format_line w (fst (formatTimeHeader when)) msg wd"
  obtain w1 wd1 where rs: "rotate_step w when ?m (int (t_day when)) wd = (w1, wd1)"
    by (cases "rotate_step w when ?m (int (t_day when)) wd")
  show ?thesis
  proof (cases "file_Write (fw_fileWriter w1) ?m wd1")
    case (Inl e)
    with assms rs show ?thesis
      by (simp add: file_WriteMsg_def formatTimeHeader_def Let_def)
  next
    case (Inr wd2)
    with assms rs have w': "fw_fileWriter w' = fw_fileWriter w1" and wd': "wd' = wd2"
      by (auto simp: file_WriteMsg_def formatTimeHeader_def Let_def)
    from Inr obtain h where h: "fw_fileWriter w1 = Some h" "\<not> h_closed h"
      "wd2 = wd1\<lparr>w_inodes := (w_inodes wd1)(h_ino h := w_inodes wd1 (h_ino h) @ ?m)\<rparr>"
      by (auto simp: file_Write_def split: option.splits if_splits)
    then show ?thesis using w' wd' by auto
  qed
qed

text \<open>
  Claim C8. The header of a record is \<open>[YYYY-MM-DD HH:MM:SS.u]\<close>: the year on four
  digits, month, day, hour, minute and second on two digits each, every field denoting
  the field of the time stamp, and \<open>u\<close> the decimal numeral, of one to six digits and not
  padded, of the microseconds within the second. When a file sink has written a record,
  its open file ends with the header, then the goroutine identifier in brackets if and
  only if the level of the sink is \<open>DEBUG\<close>, then the message and a newline.
\<close>

theorem header_form:
  assumes "civil when"
  shows "(\<exists>Y M D h m s u.
            fst (formatTimeHeader when) =
              ''['' @ Y @ ''-'' @ M @ ''-'' @ D @ '' '' @ h @ '':'' @ m @ '':'' @ s @ ''.'' @ u @ '']'' \<and>
            field 4 (t_year when) Y \<and> field 2 (t_month when) M \<and> field 2 (t_day when) D \<and>
            field 2 (t_hour when) h \<and> field 2 (t_minute when) m \<and> field 2 (t_second when) s \<and>
            u = itoa (t_nanosecond when div 1000) \<and> list_all is_digit u \<and>
            dec u = t_nanosecond when div 1000 \<and> length u \<le> 6) \<and>
         (fw_Level w \<le> level \<and> file_WriteMsg w when msg level wd = (None, w', wd') \<longrightarrow>
            (\<exists>f pre. fw_fileWriter w' = Some f \<and>
               w_inodes wd' (h_ino f) =
                 pre @ fst (formatTimeHeader when) @
                 (if fw_Level w = DEBUG then ''['' @ getGID wd @ '']'' else []) @ msg @ [NL]))"
proof
  show "\<exists>Y M D h m s u.
            fst (formatTimeHeader when) =
              ''['' @ Y @ ''-'' @ M @ ''-'' @ D @ '' '' @ h @ '':'' @ m @ '':'' @ s @ ''.'' @ u @ '']'' \<and>
            field 4 (t_year when) Y \<and> field 2 (t_month when) M \<and> field 2 (t_day when) D \<and>
            field 2 (t_hour when) h \<and> field 2 (t_minute when) m \<and> field 2 (t_second when) s \<and>
            u = itoa (t_nanosecond when div 1000) \<and> list_all is_digit u \<and>
            dec u = t_nanosecond when div 1000 \<and> length u \<le> 6"
    using Format_header_fields[OF assms] micros_field[OF assms] formatTimeHeader_text[of "when"]
    by blast
next
  show "fw_Level w \<le> level \<and> file_WriteMsg w when msg level wd = (None, w', wd') \<longrightarrow>
            (\<exists>f pre. fw_fileWriter w' = Some f \<and>
               w_inodes wd' (h_ino f) =
                 pre @ fst (formatTimeHeader when) @
                 (if fw_Level w = DEBUG then ''['' @ getGID wd @ '']'' else []) @ msg @ [NL])"
  proof
    assume a: "fw_Level w \<le> level \<and> file_WriteMsg w when msg level wd = (None, w', wd')"
    then obtain f pre where "fw_fileWriter w' = Some f"
      "w_inodes wd' (h_ino f) = pre @ format_line w (fst (formatTimeHeader when)) msg wd"
      using file_WriteMsg_written[of w level "when" msg wd w' wd'] by blast
    then show "\<exists>f pre. fw_fileWriter w' = Some f \<and>
               w_inodes wd' (h_ino f) =
                 pre @ fst (formatTimeHeader when) @
                 (if fw_Level w = DEBUG then ''['' @ getGID wd @ '']'' else []) @ msg @ [NL]"
      by (auto simp: format_line_def)
  qed
qed

lemma sink1_plain_write:
  "file_WriteMsg (sink1\<lparr>fw_Rotate := False\<rparr>) t0 ''hello'' INFO world1 =
     (None,
      sink1\<lparr>fw_Rotate := False, fw_maxLinesCurLines := 4, fw_maxSizeCurSize := 40\<rparr>,
      world1\<lparr>w_inodes := (w_inodes world1)
                (0 := ''a'' @ [NL] @ ''b'' @ [NL] @ ''c'' @ [NL] @ ''[2024-03-05 10:18:51.453993]hello'' @ [NL])\<rparr>)"
  by (simp add: file_WriteMsg_def sink1_def newFileWriter_def INFO_def DEBUG_def formatTimeHeader_def
      Format_header_def zpad_def itoa.simps digit_def t0_def rotate_step_def format_line_def
      file_Write_def world1_def world0_def Let_def)

lemma sink1_debug_write:
  "file_WriteMsg (sink1\<lparr>fw_Rotate := False, fw_Level := DEBUG\<rparr>) t0 ''hello'' INFO world1 =
     (None,
      sink1\<lparr>fw_Rotate := False, fw_Level := DEBUG, fw_maxLinesCurLines := 4, fw_maxSizeCurSize := 43\<rparr>,
      world1\<lparr>w_inodes := (w_inodes world1)
                (0 := ''a'' @ [NL] @ ''b'' @ [NL] @ ''c'' @ [NL] @ ''[2024-03-05 10:18:51.453993][1]hello'' @ [NL])\<rparr>)"
  by (simp add: file_WriteMsg_def sink1_def newFileWriter_def INFO_def DEBUG_def formatTimeHeader_def
      Format_header_def zpad_def itoa.simps digit_def t0_def rotate_step_def format_line_def
      file_Write_def world1_def world0_def Let_def getGID_def)

theorem header_form_witness:
  "civil t0 \<and> civil (t0\<lparr>t_nanosecond := 5000\<rparr>) \<and>
   fst (formatTimeHeader t0) = ''[2024-03-05 10:18:51.453993]'' \<and>
   fst (formatTimeHeader (t0\<lparr>t_nanosecond := 5000\<rparr>)) = ''[2024-03-05 10:18:51.5]'' \<and>
   (\<exists>f pre. fw_fileWriter (fst (snd (file_WriteMsg (sink1\<lparr>fw_Rotate := False\<rparr>) t0 ''hello'' INFO world1))) = Some f \<and>
      w_inodes (snd (snd (file_WriteMsg (sink1\<lparr>fw_Rotate := False\<rparr>) t0 ''hello'' INFO world1))) (h_ino f) =
        pre @ ''[2024-03-05 10:18:51.453993]hello'' @ [NL]) \<and>
   (\<exists>f pre. fw_fileWriter (fst (snd (file_WriteMsg (sink1\<lparr>fw_Rotate := False, fw_Level := DEBUG\<rparr>) t0 ''hello'' INFO world1))) = Some f \<and>
      w_inodes (snd (snd (file_WriteMsg (sink1\<lparr>fw_Rotate := False, fw_Level := DEBUG\<rparr>) t0 ''hello'' INFO world1))) (h_ino f) =
        pre @ ''[2024-03-05 10:18:51.453993][1]hello'' @ [NL])"
proof -
  have c: "civil t0" "civil (t0\<lparr>t_nanosecond := 5000\<rparr>)"
    by (simp_all add: civil_def t0_def)
  have h: "fst (formatTimeHeader t0) = ''[2024-03-05 10:18:51.453993]''"
    "fst (formatTimeHeader (t0\<lparr>t_nanosecond := 5000\<rparr>)) = ''[2024-03-05 10:18:51.5]''"
    by (simp_all add: formatTimeHeader_def Format_header_def zpad_def itoa.simps digit_def t0_def)
  have l: "fw_Level (sink1\<lparr>fw_Rotate := False\<rparr>) \<le> INFO"
    "fw_Level (sink1\<lparr>fw_Rotate := False, fw_Level := DEBUG\<rparr>) \<le> INFO"
    "fw_Level (sink1\<lparr>fw_Rotate := False\<rparr>) \<noteq> DEBUG"
    by (simp_all add: sink1_def INFO_def DEBUG_def)
  have g: "getGID world1 = ''1''" by (simp add: getGID_def world1_def world0_def)
  show ?thesis
    using header_form[OF c(1), of "sink1\<lparr>fw_Rotate := False\<rparr>" INFO "''hello''" world1
        "fst (snd (file_WriteMsg (sink1\<lparr>fw_Rotate := False\<rparr>) t0 ''hello'' INFO world1))"
        "snd (snd (file_WriteMsg (sink1\<lparr>fw_Rotate := False\<rparr>) t0 ''hello'' INFO world1))"]
      header_form[OF c(1), of "sink1\<lparr>fw_Rotate := False, fw_Level := DEBUG\<rparr>" INFO "''hello''" world1
        "fst (snd (file_WriteMsg (sink1\<lparr>fw_Rotate := False, fw_Level := DEBUG\<rparr>) t0 ''hello'' INFO world1))"
        "snd (snd (file_WriteMsg (sink1\<lparr>fw_Rotate := False, fw_Level := DEBUG\<rparr>) t0 ''hello'' INFO world1))"]
      c h l g
    by (simp add: sink1_plain_write sink1_debug_write)
qed

section \<open>The fan-out\<close>














section \<open>Level filtering\<close>


















section \<open>Retention\<close>





















lemma sinkR_fields:
  "fw_fileNameOnly sinkR = ''app''" "fw_MaxDays sinkR = 7" "fw_MaxTotalSize sinkR = 10 * MB"
  "filepath_Dir (fw_Filename sinkR) = ''logs''"
  by (simp_all add: sinkR_def sink1_def newFileWriter_def filepath_Dir_def filepath_Clean_def
      strip_trailing_sep_def)


lemma expiredR: "expired_paths sinkR walkR = []"
  by (simp add: expired_paths_def walkR_def regular_match_def expired_def sinkR_fields
      HasPrefix_def filepath_Base_def strip_trailing_sep_def last_element_def
      dirL_def fileA_def fileB_def fileC_def fileX_def tA_def tB_def tC_def t0_def ONE_DAY_SECONDS_def)

lemma sortR:
  "sort [''2024-03-01-10-18-51'', ''2024-03-02-10-18-51'', ''2024-03-03-10-18-51'']
     = [''2024-03-01-10-18-51'', ''2024-03-02-10-18-51'', ''2024-03-03-10-18-51'']"
  by simp

lemma sortR2:
  "sort [''2024-03-03-10-18-51'', ''2024-03-01-10-18-51'', ''2024-03-02-10-18-51'']
     = [''2024-03-01-10-18-51'', ''2024-03-02-10-18-51'', ''2024-03-03-10-18-51'']"
  by simp









text \<open>
  Two survivors with the same time key (modification times within the same second) share
  one entry of \<open>fileTimeMap\<close>, the later of the walk, while the key stands twice in
  \<open>timeKeys\<close>. With three files of 5 MB, the first two of one key, and 4 MB allowed, the
  second file is removed twice, its size is counted twice, and the first file stays.
\<close>

lemma equal_keys_example:
  "deleteOldLog (sinkR\<lparr>fw_MaxTotalSize := 4 * MB\<rparr>)
     [\<lparr>ws_path = ''logs/app.1.zip'', ws_info = Some (fileA\<lparr>fi_Name := ''app.1.zip''\<rparr>), ws_now = t0\<rparr>,
      \<lparr>ws_path = ''logs/app.2.zip'', ws_info = Some (fileA\<lparr>fi_Name := ''app.2.zip''\<rparr>), ws_now = t0\<rparr>,
      \<lparr>ws_path = ''logs/app.3.zip'', ws_info = Some (fileA\<lparr>fi_Name := ''app.3.zip'', fi_ModTime := tB\<rparr>), ws_now = t0\<rparr>]
     world0 =
   Some (world0\<lparr>w_removed := [''logs/app.2.zip'', ''logs/app.2.zip'', ''logs/app.3.zip'']\<rparr>)"
  by (simp add: deleteOldLog_def walkFn_def sinkR_def sink1_def newFileWriter_def
        HasPrefix_def filepath_Base_def strip_trailing_sep_def last_element_def
        filepath_Dir_def filepath_Clean_def filepath_Join_def
        Format_LOG_PATTERN_def zpad_def itoa.simps digit_def
        fileA_def tA_def tB_def t0_def ONE_DAY_SECONDS_def
        scan0_def MB_def os_Remove_def world0_def Let_def)









end
